theory Spec2Isabelle
  imports Complex_Main "HOL-Library.AList"
begin

section \<open>Values exchanged with the server\<close>

text \<open>
  Values typed \<open>any\<close> or \<open>Record<string, any>\<close> in the TypeScript source (tool arguments,
  the result of \<open>JSON.parse\<close>, the decision handed to \<open>submitDecision\<close>, the payload of a
  status message) are JSON values. Objects keep their keys in the order they were written.
  Numbers are integers here: the store and the panel pass payload numbers on and never
  compute with them.
\<close>

datatype json =
    JNull
  | JBool bool
  | JNum int
  | JStr string
  | JArr "json list"
  | JObj "(string \<times> json) list"

subsection \<open>types/index.ts\<close>

record Document =
  d_id :: string
  filename :: string
  summary :: string
  pages :: int
  uploaded_at :: string

record DocumentPage =
  num :: int
  p_summary :: string
  legally_significant :: bool

record DocumentDetail =
  dd_id :: string
  dd_filename :: string
  dd_summary :: string
  dd_uploaded_at :: string
  page_count :: int
  dd_pages :: "DocumentPage list"

record DocumentHighlight =
  doc_id :: string
  reason :: string
  legally_significant_pages :: "int list"
  all_pages_summary :: "(int \<times> string) list"

record PageHighlight =
  ph_doc_id :: string
  page_nums :: "int list"
  ph_context :: string

datatype FileOperation = OpWrite | OpEdit

record FileHighlight =
  file_path :: string
  operation :: FileOperation
  content_preview :: string

record ApprovalRequest =
  request_id :: string
  tool_name :: string
  tool_args :: json
  allowed_decisions :: "string list"
  document_highlights :: "DocumentHighlight list"
  page_highlights :: "PageHighlight list"
  file_highlights :: "FileHighlight list"
  agent_reasoning :: string
  related_todos :: "string list"
  timestamp :: string

datatype TodoStatus = Pending | InProgress | TodoCompleted

record Todo =
  content :: string
  status :: TodoStatus
  activeForm :: string

record WorkflowEvent =
  event_type :: json
  event_data :: json
  event_timestamp :: string

record AgentFile =
  path :: string
  file_content :: string
  updated_at :: string

text \<open>
  \<open>UIState\<close>. The \<open>message\<close> of the error variant is declared a string, but
  \<open>handleAgentStatus\<close> stores whatever \<open>details\<close> the status message carried, which may be
  absent (\<open>undefined\<close>, here \<open>None\<close>).
\<close>

datatype UIState =
    Idle
  | AgentRunning
  | AwaitingApproval ApprovalRequest
  | Completed
  | Error "json option"

section \<open>The store (stores/appStore.ts)\<close>

text \<open>
  A JavaScript \<open>Set\<close> keeps its members in insertion order and ignores the insertion of a
  member it already holds; \<open>Array.from\<close> reads that order. It is a duplicate-free list here.
  A JavaScript \<open>Map\<close> is an association list: \<open>set\<close> on a present key replaces the value in
  place, on a new key appends (\<open>AList.update\<close>), \<open>get\<close> is \<open>map_of\<close>.
\<close>

definition Set_add :: "'a \<Rightarrow> 'a list \<Rightarrow> 'a list" where
  "Set_add x s = (if x \<in> set s then s else s @ [x])"

definition new_Set :: "'a list \<Rightarrow> 'a list" where
  "new_Set xs = foldl (\<lambda>s x. Set_add x s) [] xs"

datatype WebSocket = WebSocket string

record AppState =
  sessionId :: "string option"
  ws :: "WebSocket option"
  uiState :: UIState
  documents :: "Document list"
  selectedDocumentId :: "string option"
  selectedDocumentDetail :: "DocumentDetail option"
  highlightedDocumentIds :: "string list"
  highlightedPages :: "(string \<times> int list) list"
  files :: "(string \<times> AgentFile) list"
  selectedFilePath :: "string option"
  highlightedFilePaths :: "string list"
  currentPdfPage :: int
  todos :: "Todo list"
  workflowEvents :: "WorkflowEvent list"
  leftPanelWidth :: real
  rightPanelWidth :: real
  centerTopHeight :: real

definition initial_state :: AppState where
  "initial_state =
     \<lparr> sessionId = None, ws = None, uiState = Idle, documents = [],
       selectedDocumentId = None, selectedDocumentDetail = None,
       highlightedDocumentIds = [], highlightedPages = [], files = [],
       selectedFilePath = None, highlightedFilePaths = [], currentPdfPage = 1,
       todos = [], workflowEvents = [],
       leftPanelWidth = 20, rightPanelWidth = 20, centerTopHeight = 25 \<rparr>"

text \<open>
  What a call does beyond updating the store: a frame handed to \<open>ws.send\<close> (the object
  given to \<open>JSON.stringify\<close>, before serialisation), an \<open>alert\<close>, a \<open>console.error\<close>.
  The store holds the socket as a handle or \<open>null\<close> and never reads its \<open>readyState\<close>;
  \<open>ws.send\<close> on a held socket is taken to accept the frame.
\<close>

record envelope =
  msg_type :: string
  env_request_id :: string
  decision :: json

datatype effect = Send envelope | Alert string | ConsoleError string

fun sent :: "effect list \<Rightarrow> envelope list" where
  "sent [] = []"
| "sent (Send m # es) = m # sent es"
| "sent (_ # es) = sent es"

subsection \<open>submitDecision\<close>

definition submitDecision :: "json \<Rightarrow> AppState \<Rightarrow> AppState \<times> effect list" where
  "submitDecision d s =
     (case (ws s, uiState s) of
        (Some w, AwaitingApproval request) \<Rightarrow>
          (s\<lparr> uiState := AgentRunning,
              highlightedDocumentIds := [],
              highlightedPages := [],
              highlightedFilePaths := [] \<rparr>,
           [Send \<lparr> msg_type = ''approval_decision'',
                   env_request_id = request_id request,
                   decision = d \<rparr>])
      | _ \<Rightarrow> (s, [ConsoleError ''Cannot submit decision: not awaiting approval'']))"

subsection \<open>handleApprovalRequest\<close>

text \<open>
  \<open>!currentSelected\<close> on a value of type \<open>string | null\<close> holds for \<open>null\<close> and for the
  empty string: the store's reading of "none selected" (the other selection tests of the
  application, \<open>selectedDocumentId ? ... : ...\<close>, read it the same way).
\<close>

definition falsy :: "string option \<Rightarrow> bool" where
  "falsy v = (case v of None \<Rightarrow> True | Some str \<Rightarrow> str = [])"

definition docPages :: "DocumentHighlight list \<Rightarrow> (string \<times> int list) list" where
  "docPages dhs =
     foldl (\<lambda>m dh. AList.update (doc_id dh) (new_Set (legally_significant_pages dh)) m) [] dhs"

definition addPageHighlight ::
    "(string \<times> int list) list \<Rightarrow> PageHighlight \<Rightarrow> (string \<times> int list) list" where
  "addPageHighlight m ph =
     (let existing = (case map_of m (ph_doc_id ph) of Some e \<Rightarrow> e | None \<Rightarrow> [])
      in AList.update (ph_doc_id ph) (foldl (\<lambda>e n. Set_add n e) existing (page_nums ph)) m)"

definition handleApprovalRequest :: "ApprovalRequest \<Rightarrow> AppState \<Rightarrow> AppState" where
  "handleApprovalRequest request s =
     (let docIds = new_Set (map doc_id (document_highlights request));
          pageHighlights =
            foldl addPageHighlight (docPages (document_highlights request))
              (page_highlights request);
          fileHighlights = new_Set (map file_path (file_highlights request));
          currentSelected = selectedDocumentId s;
          newSelected =
            (if length docIds > 0 \<and> falsy currentSelected
             then (case docIds of [] \<Rightarrow> None | x # _ \<Rightarrow> Some x)
             else currentSelected)
      in s\<lparr> uiState := AwaitingApproval request,
            highlightedDocumentIds := docIds,
            highlightedPages := pageHighlights,
            highlightedFilePaths := fileHighlights,
            selectedDocumentId := newSelected \<rparr>)"

subsection \<open>handleAgentStatus\<close>

text \<open>The \<open>data\<close> of an \<open>agent_status\<close> message; an absent key reads as \<open>undefined\<close>.\<close>

record AgentStatusData =
  as_status :: "json option"
  as_details :: "json option"

definition handleAgentStatus :: "AgentStatusData \<Rightarrow> AppState \<Rightarrow> AppState" where
  "handleAgentStatus data s =
     (if as_status data = Some (JStr ''completed'') then s\<lparr> uiState := Completed \<rparr>
      else if as_status data = Some (JStr ''failed'') then s\<lparr> uiState := Error (as_details data) \<rparr>
      else if as_status data = Some (JStr ''running'') then s\<lparr> uiState := AgentRunning \<rparr>
      else s)"

subsection \<open>The other message handlers and actions\<close>

text \<open>\<open>new Date().toISOString()\<close> is read from the clock: the time is an argument.\<close>

definition handleTodosUpdate :: "Todo list \<Rightarrow> AppState \<Rightarrow> AppState" where
  "handleTodosUpdate ts s = s\<lparr> todos := ts \<rparr>"

definition handleWorkflowEvent :: "json \<Rightarrow> json \<Rightarrow> string \<Rightarrow> AppState \<Rightarrow> AppState" where
  "handleWorkflowEvent ty dat now s =
     s\<lparr> workflowEvents :=
           workflowEvents s @ [\<lparr> event_type = ty, event_data = dat, event_timestamp = now \<rparr>] \<rparr>"

datatype message =
    ApprovalRequestMessage ApprovalRequest
  | AgentStatusMessage AgentStatusData
  | TodosUpdateMessage "Todo list"
  | WorkflowEventMessage json json
  | UnknownMessage string

fun onmessage :: "string \<Rightarrow> message \<Rightarrow> AppState \<Rightarrow> AppState" where
  "onmessage now (ApprovalRequestMessage request) s = handleApprovalRequest request s"
| "onmessage now (AgentStatusMessage data) s = handleAgentStatus data s"
| "onmessage now (TodosUpdateMessage ts) s = handleTodosUpdate ts s"
| "onmessage now (WorkflowEventMessage ty dat) s = handleWorkflowEvent ty dat now s"
| "onmessage now (UnknownMessage ty) s = s"

text \<open>\<open>WS_URL\<close> comes from the build environment: it is an argument of \<open>connect\<close>.\<close>

definition connect :: "string \<Rightarrow> string \<Rightarrow> AppState \<Rightarrow> AppState" where
  "connect WS_URL sid s =
     s\<lparr> sessionId := Some sid, ws := Some (WebSocket (WS_URL @ ''/ws/'' @ sid)) \<rparr>"

definition onopen :: "string \<Rightarrow> WebSocket \<Rightarrow> AppState \<Rightarrow> AppState" where
  "onopen sid w s = s\<lparr> sessionId := Some sid, ws := Some w, uiState := AgentRunning \<rparr>"

definition onerror :: "AppState \<Rightarrow> AppState" where
  "onerror s = s\<lparr> uiState := Error (Some (JStr ''Connection error'')) \<rparr>"

definition onclose :: "AppState \<Rightarrow> AppState" where
  "onclose s = s\<lparr> ws := None \<rparr>"

definition disconnect :: "AppState \<Rightarrow> AppState" where
  "disconnect s = (case ws s of None \<Rightarrow> s | Some w \<Rightarrow> s\<lparr> ws := None, sessionId := None \<rparr>)"

text \<open>
  \<open>selectDocument\<close> is asynchronous: it selects at once and stores the fetched detail when
  the request returns; a failed fetch stores nothing.
\<close>

definition selectDocument :: "string \<Rightarrow> AppState \<Rightarrow> AppState" where
  "selectDocument docId s = s\<lparr> selectedDocumentId := Some docId, currentPdfPage := 1 \<rparr>"

definition selectDocument_fetched :: "DocumentDetail \<Rightarrow> AppState \<Rightarrow> AppState" where
  "selectDocument_fetched detail s = s\<lparr> selectedDocumentDetail := Some detail \<rparr>"

definition selectFile :: "string \<Rightarrow> AppState \<Rightarrow> AppState" where
  "selectFile filePath s = s\<lparr> selectedFilePath := Some filePath \<rparr>"

definition setDocuments :: "Document list \<Rightarrow> AppState \<Rightarrow> AppState" where
  "setDocuments docs s = s\<lparr> documents := docs \<rparr>"

definition setCurrentPdfPage :: "int \<Rightarrow> AppState \<Rightarrow> AppState" where
  "setCurrentPdfPage page s = s\<lparr> currentPdfPage := page \<rparr>"

definition updateFile :: "string \<Rightarrow> string \<Rightarrow> string \<Rightarrow> AppState \<Rightarrow> AppState" where
  "updateFile p c now s =
     s\<lparr> files := AList.update p \<lparr> path = p, file_content = c, updated_at = now \<rparr> (files s) \<rparr>"

datatype panel = LeftPanel | RightPanel

definition setLayoutWidth :: "panel \<Rightarrow> real \<Rightarrow> AppState \<Rightarrow> AppState" where
  "setLayoutWidth pn width s =
     (if pn = LeftPanel then s\<lparr> leftPanelWidth := width \<rparr> else s\<lparr> rightPanelWidth := width \<rparr>)"

definition setLayoutHeight :: "real \<Rightarrow> AppState \<Rightarrow> AppState" where
  "setLayoutHeight height s = s\<lparr> centerTopHeight := height \<rparr>"

subsection \<open>Everything that can happen to the store\<close>

datatype event =
    Connect string
  | OnOpen string WebSocket
  | OnMessage string message
  | OnError
  | OnClose
  | Disconnect
  | SubmitDecision json
  | SelectDocument string
  | DetailFetched DocumentDetail
  | SelectFile string
  | SetDocuments "Document list"
  | SetCurrentPdfPage int
  | UpdateFile string string string
  | SetLayoutWidth panel real
  | SetLayoutHeight real

fun step :: "string \<Rightarrow> event \<Rightarrow> AppState \<Rightarrow> AppState \<times> effect list" where
  "step WS_URL (Connect sid) s = (connect WS_URL sid s, [])"
| "step WS_URL (OnOpen sid w) s = (onopen sid w s, [])"
| "step WS_URL (OnMessage now m) s = (onmessage now m s, [])"
| "step WS_URL OnError s = (onerror s, [])"
| "step WS_URL OnClose s = (onclose s, [])"
| "step WS_URL Disconnect s = (disconnect s, [])"
| "step WS_URL (SubmitDecision d) s = submitDecision d s"
| "step WS_URL (SelectDocument docId) s = (selectDocument docId s, [])"
| "step WS_URL (DetailFetched detail) s = (selectDocument_fetched detail s, [])"
| "step WS_URL (SelectFile filePath) s = (selectFile filePath s, [])"
| "step WS_URL (SetDocuments docs) s = (setDocuments docs s, [])"
| "step WS_URL (SetCurrentPdfPage page) s = (setCurrentPdfPage page s, [])"
| "step WS_URL (UpdateFile p c now) s = (updateFile p c now s, [])"
| "step WS_URL (SetLayoutWidth pn width) s = (setLayoutWidth pn width s, [])"
| "step WS_URL (SetLayoutHeight height) s = (setLayoutHeight height s, [])"

fun run :: "string \<Rightarrow> event list \<Rightarrow> AppState \<Rightarrow> AppState \<times> effect list" where
  "run WS_URL [] s = (s, [])"
| "run WS_URL (e # es) s =
     (let (s1, out1) = step WS_URL e s; (s2, out2) = run WS_URL es s1 in (s2, out1 @ out2))"

fun is_approval_request :: "event \<Rightarrow> bool" where
  "is_approval_request (OnMessage now (ApprovalRequestMessage request)) = True"
| "is_approval_request _ = False"

fun awaiting :: "UIState \<Rightarrow> bool" where
  "awaiting (AwaitingApproval request) = True"
| "awaiting _ = False"

section \<open>The approval panel (ApprovalPanel component)\<close>

text \<open>
  The component's own state (\<open>useState\<close>). \<open>JSON.parse\<close> and \<open>JSON.stringify\<close> belong to
  the platform: they are arguments, \<open>parse\<close> returning \<open>None\<close> where \<open>JSON.parse\<close> throws.
\<close>

record PanelState =
  isEditing :: bool
  editedArgs :: string

definition canEdit :: "ApprovalRequest \<Rightarrow> bool" where
  "canEdit request = (''edit'' \<in> set (allowed_decisions request))"

definition canReject :: "ApprovalRequest \<Rightarrow> bool" where
  "canReject request = (''reject'' \<in> set (allowed_decisions request))"

definition handleApprove :: "AppState \<times> PanelState \<Rightarrow> (AppState \<times> PanelState) \<times> effect list" where
  "handleApprove sp =
     (let (s', out) = submitDecision (JObj [(''type'', JStr ''approve'')]) (fst sp)
      in ((s', (snd sp)\<lparr> isEditing := False \<rparr>), out))"

definition handleEdit ::
    "(string \<Rightarrow> json option) \<Rightarrow> (json \<Rightarrow> string) \<Rightarrow> ApprovalRequest \<Rightarrow>
     AppState \<times> PanelState \<Rightarrow> (AppState \<times> PanelState) \<times> effect list" where
  "handleEdit parse stringify request sp =
     (if isEditing (snd sp) then
        (case parse (editedArgs (snd sp)) of
           Some parsed \<Rightarrow>
             (let (s', out) =
                    submitDecision
                      (JObj [(''type'', JStr ''edit''),
                             (''edited_action'',
                                JObj [(''name'', JStr (tool_name request)), (''args'', parsed)])])
                      (fst sp)
              in ((s', (snd sp)\<lparr> isEditing := False \<rparr>), out))
         | None \<Rightarrow> (sp, [Alert ''Invalid JSON. Please check your edits.'']))
      else
        ((fst sp, (snd sp)\<lparr> editedArgs := stringify (tool_args request), isEditing := True \<rparr>), []))"

definition handleReject :: "AppState \<times> PanelState \<Rightarrow> (AppState \<times> PanelState) \<times> effect list" where
  "handleReject sp =
     (let (s', out) =
            submitDecision (JObj [(''type'', JStr ''reject''), (''reason'', JStr ''User rejected'')])
              (fst sp)
      in ((s', (snd sp)\<lparr> isEditing := False \<rparr>), out))"

definition handleCancel :: "AppState \<times> PanelState \<Rightarrow> (AppState \<times> PanelState) \<times> effect list" where
  "handleCancel sp = ((fst sp, (snd sp)\<lparr> isEditing := False \<rparr>), [])"

text \<open>
  The buttons of the rendered panel. The component renders nothing unless the store is
  awaiting approval; the Cancel button exists only while editing, the Edit button only when
  \<open>canEdit\<close>, the Reject button only when \<open>canReject\<close>; Approve and Reject are disabled while
  editing. A click on a button that is absent or disabled does nothing.
\<close>

datatype button = CancelButton | ApproveButton | EditButton | RejectButton

fun clickable :: "ApprovalRequest \<Rightarrow> PanelState \<Rightarrow> button \<Rightarrow> bool" where
  "clickable request p CancelButton = isEditing p"
| "clickable request p ApproveButton = (\<not> isEditing p)"
| "clickable request p EditButton = canEdit request"
| "clickable request p RejectButton = (canReject request \<and> \<not> isEditing p)"

fun onClick ::
    "(string \<Rightarrow> json option) \<Rightarrow> (json \<Rightarrow> string) \<Rightarrow> ApprovalRequest \<Rightarrow> button \<Rightarrow>
     AppState \<times> PanelState \<Rightarrow> (AppState \<times> PanelState) \<times> effect list" where
  "onClick parse stringify request CancelButton sp = handleCancel sp"
| "onClick parse stringify request ApproveButton sp = handleApprove sp"
| "onClick parse stringify request EditButton sp = handleEdit parse stringify request sp"
| "onClick parse stringify request RejectButton sp = handleReject sp"

definition click ::
    "(string \<Rightarrow> json option) \<Rightarrow> (json \<Rightarrow> string) \<Rightarrow> button \<Rightarrow>
     AppState \<times> PanelState \<Rightarrow> (AppState \<times> PanelState) \<times> effect list" where
  "click parse stringify b sp =
     (case uiState (fst sp) of
        AwaitingApproval request \<Rightarrow>
          (if clickable request (snd sp) b then onClick parse stringify request b sp
           else (sp, []))
      | _ \<Rightarrow> (sp, []))"

text \<open>The \<open>type\<close> tag of a decision object, when it has one.\<close>

fun decision_type :: "json \<Rightarrow> json option" where
  "decision_type (JObj kvs) = map_of kvs ''type''"
| "decision_type _ = None"

section \<open>Concrete inputs\<close>

text \<open>
  Stand-ins for \<open>JSON.parse\<close> and \<open>JSON.stringify\<close> on the few texts the examples below
  use; the theorems themselves hold for every parser and printer.
\<close>

definition tiny_parse :: "string \<Rightarrow> json option" where
  "tiny_parse t =
     (if t = ''{}'' then Some (JObj [])
      else if t = ''null'' then Some JNull
      else None)"

definition tiny_stringify :: "json \<Rightarrow> string" where
  "tiny_stringify v = (case v of JObj [] \<Rightarrow> ''{}'' | JNull \<Rightarrow> ''null'' | _ \<Rightarrow> ''?'')"

definition example_request :: ApprovalRequest where
  "example_request =
     \<lparr> request_id = ''r1'', tool_name = ''write_file'', tool_args = JObj [],
       allowed_decisions = [''approve'', ''edit'', ''reject''],
       document_highlights =
         [\<lparr> doc_id = ''d1'', reason = ''cited'', legally_significant_pages = [3, 4],
            all_pages_summary = [] \<rparr>],
       page_highlights = [\<lparr> ph_doc_id = ''d1'', page_nums = [4, 7], ph_context = ''clause'' \<rparr>],
       file_highlights =
         [\<lparr> file_path = ''report.md'', operation = OpWrite, content_preview = ''draft'' \<rparr>],
       agent_reasoning = ''write the report'', related_todos = [],
       timestamp = ''2024-01-01T00:00:00Z'' \<rparr>"

text \<open>The store after \<open>connect\<close> and the socket's \<open>onopen\<close>.\<close>

definition connected_state :: AppState where
  "connected_state =
     onopen ''s1'' (WebSocket ''ws://localhost:8000/ws/s1'')
       (connect ''ws://localhost:8000'' ''s1'' initial_state)"

text \<open>Store events after a submission, none of them an approval request.\<close>

definition quiet_events :: "event list" where
  "quiet_events =
     [SubmitDecision (JObj [(''type'', JStr ''approve'')]),
      OnMessage ''2024-01-01T00:00:01Z''
        (AgentStatusMessage \<lparr> as_status = Some (JStr ''running''), as_details = None \<rparr>),
      SelectFile ''report.md'']"

text \<open>A request that allows rejection only.\<close>

definition approve_excluded_request :: ApprovalRequest where
  "approve_excluded_request = example_request\<lparr> allowed_decisions := [''reject''] \<rparr>"

text \<open>A request with two document highlights for the same document.\<close>

definition repeated_document_request :: ApprovalRequest where
  "repeated_document_request =
     example_request
       \<lparr> document_highlights :=
           [\<lparr> doc_id = ''d1'', reason = ''cited'', legally_significant_pages = [1],
              all_pages_summary = [] \<rparr>,
            \<lparr> doc_id = ''d1'', reason = ''cited again'', legally_significant_pages = [2],
              all_pages_summary = [] \<rparr>],
         page_highlights := [] \<rparr>"

section \<open>The specification's wording\<close>

text \<open>
  The decision object the specification describes for an edit,
  \<open>Edit{ edited_args: structured map }\<close>, to be compared with the object the panel builds.
\<close>

definition spec_Edit :: "json \<Rightarrow> json" where
  "spec_Edit edited_args = JObj [(''type'', JStr ''edit''), (''edited_args'', edited_args)]"

text \<open>
  The page highlights the specification describes for a document: the union of the
  legally significant pages of all its document highlights and of the page numbers of all
  its page highlights.
\<close>

definition spec_highlightedPages :: "ApprovalRequest \<Rightarrow> string \<Rightarrow> int set" where
  "spec_highlightedPages request d =
     set (concat (map legally_significant_pages
                    (filter (\<lambda>dh. doc_id dh = d) (document_highlights request))))
     \<union> set (concat (map page_nums
                      (filter (\<lambda>ph. ph_doc_id ph = d) (page_highlights request))))"

section \<open>Basic facts\<close>

lemma connected_state_simps:
  "ws connected_state = Some (WebSocket ''ws://localhost:8000/ws/s1'')"
  "uiState connected_state = AgentRunning"
  "selectedDocumentId connected_state = None"
  by (simp_all add: connected_state_def onopen_def connect_def initial_state_def)

lemma handleApprovalRequest_uiState:
  "uiState (handleApprovalRequest r s) = AwaitingApproval r"
  "ws (handleApprovalRequest r s) = ws s"
  by (simp_all add: handleApprovalRequest_def Let_def)

lemma set_foldl_Set_add: "set (foldl (\<lambda>s x. Set_add x s) acc xs) = set acc \<union> set xs"
  by (induction xs arbitrary: acc) (auto simp: Set_add_def)

lemma set_new_Set: "set (new_Set xs) = set xs"
  by (simp add: new_Set_def set_foldl_Set_add)

lemma foldl_Set_add_prefix: "\<exists>ys. foldl (\<lambda>s x. Set_add x s) acc xs = acc @ ys"
proof (induction xs arbitrary: acc)
  case Nil
  show ?case by simp
next
  case (Cons x xs)
  obtain ys where "foldl (\<lambda>s x. Set_add x s) (Set_add x acc) xs = Set_add x acc @ ys"
    using Cons.IH by blast
  then show ?case by (auto simp: Set_add_def)
qed

lemma new_Set_Cons: "\<exists>ys. new_Set (x # xs) = x # ys"
  using foldl_Set_add_prefix [of "[x]" xs] by (simp add: new_Set_def Set_add_def)

section \<open>Submitting a decision\<close>

text \<open>
  C3. A call of \<open>submitDecision\<close> while the store is awaiting approval and holds a socket
  leaves the three highlight collections empty and the projection at \<open>agent_running\<close>,
  whatever decision object is submitted.
\<close>

theorem submitDecision_clears_projection:
  assumes "ws s = Some w" and "uiState s = AwaitingApproval request"
  shows "highlightedDocumentIds (fst (submitDecision d s)) = []
       \<and> highlightedPages (fst (submitDecision d s)) = []
       \<and> highlightedFilePaths (fst (submitDecision d s)) = []
       \<and> uiState (fst (submitDecision d s)) = AgentRunning"
  using assms by (simp add: submitDecision_def)

theorem submitDecision_clears_projection_witness:
  "ws (handleApprovalRequest example_request connected_state)
     = Some (WebSocket ''ws://localhost:8000/ws/s1'')
   \<and> uiState (handleApprovalRequest example_request connected_state)
     = AwaitingApproval example_request
   \<and> highlightedDocumentIds (handleApprovalRequest example_request connected_state) = [''d1'']
   \<and> highlightedDocumentIds
        (fst (submitDecision (JObj [(''type'', JStr ''approve'')])
               (handleApprovalRequest example_request connected_state))) = []
   \<and> uiState
        (fst (submitDecision (JObj [(''type'', JStr ''approve'')])
               (handleApprovalRequest example_request connected_state))) = AgentRunning"
proof -
  have w: "ws (handleApprovalRequest example_request connected_state)
             = Some (WebSocket ''ws://localhost:8000/ws/s1'')"
    by (simp add: handleApprovalRequest_uiState connected_state_simps)
  have u: "uiState (handleApprovalRequest example_request connected_state)
             = AwaitingApproval example_request"
    by (simp add: handleApprovalRequest_uiState)
  have h: "highlightedDocumentIds (handleApprovalRequest example_request connected_state) = [''d1'']"
    by (simp add: handleApprovalRequest_def Let_def example_request_def new_Set_def Set_add_def)
  show ?thesis
    using submitDecision_clears_projection [OF w u, of "JObj [(''type'', JStr ''approve'')]"] w u h
    by simp
qed

text \<open>
  C10. A successful \<open>submitDecision\<close> leaves every field of the store other than \<open>uiState\<close>
  and the three highlight collections as it was: the session and socket, the documents, the
  selected document and its detail, the files and the selected file, the todos, the
  workflow events, the current PDF page and the layout dimensions.
\<close>

theorem submitDecision_frame:
  assumes "ws s = Some w" and "uiState s = AwaitingApproval request"
  shows "sessionId (fst (submitDecision d s)) = sessionId s
       \<and> ws (fst (submitDecision d s)) = ws s
       \<and> documents (fst (submitDecision d s)) = documents s
       \<and> selectedDocumentId (fst (submitDecision d s)) = selectedDocumentId s
       \<and> selectedDocumentDetail (fst (submitDecision d s)) = selectedDocumentDetail s
       \<and> files (fst (submitDecision d s)) = files s
       \<and> selectedFilePath (fst (submitDecision d s)) = selectedFilePath s
       \<and> currentPdfPage (fst (submitDecision d s)) = currentPdfPage s
       \<and> todos (fst (submitDecision d s)) = todos s
       \<and> workflowEvents (fst (submitDecision d s)) = workflowEvents s
       \<and> leftPanelWidth (fst (submitDecision d s)) = leftPanelWidth s
       \<and> rightPanelWidth (fst (submitDecision d s)) = rightPanelWidth s
       \<and> centerTopHeight (fst (submitDecision d s)) = centerTopHeight s"
  using assms by (simp add: submitDecision_def)

theorem submitDecision_frame_witness:
  "ws (handleApprovalRequest example_request connected_state)
     = Some (WebSocket ''ws://localhost:8000/ws/s1'')
   \<and> uiState (handleApprovalRequest example_request connected_state)
     = AwaitingApproval example_request
   \<and> selectedDocumentId
       (fst (submitDecision (JObj [(''type'', JStr ''approve'')])
              (handleApprovalRequest example_request connected_state))) = Some ''d1''
   \<and> currentPdfPage
       (fst (submitDecision (JObj [(''type'', JStr ''approve'')])
              (handleApprovalRequest example_request connected_state))) = 1"
proof -
  have w: "ws (handleApprovalRequest example_request connected_state)
             = Some (WebSocket ''ws://localhost:8000/ws/s1'')"
    by (simp add: handleApprovalRequest_uiState connected_state_simps)
  have u: "uiState (handleApprovalRequest example_request connected_state)
             = AwaitingApproval example_request"
    by (simp add: handleApprovalRequest_uiState)
  have sel: "selectedDocumentId (handleApprovalRequest example_request connected_state) = Some ''d1''"
    by (simp add: handleApprovalRequest_def Let_def example_request_def new_Set_def Set_add_def
          falsy_def connected_state_simps)
  have pg: "currentPdfPage (handleApprovalRequest example_request connected_state) = 1"
    by (simp add: handleApprovalRequest_def Let_def connected_state_def onopen_def connect_def
          initial_state_def)
  show ?thesis
    using submitDecision_frame [OF w u, of "JObj [(''type'', JStr ''approve'')]"] w u sel pg
    by simp
qed

subsection \<open>One decision per presented request\<close>

lemma submitDecision_guard:
  "ws s = None \<or> \<not> awaiting (uiState s) \<Longrightarrow>
     submitDecision d s = (s, [ConsoleError ''Cannot submit decision: not awaiting approval''])"
  by (cases "uiState s") (auto simp: submitDecision_def split: option.splits)

lemma onmessage_not_awaiting:
  "\<not> awaiting (uiState s) \<Longrightarrow> \<not> is_approval_request (OnMessage now m) \<Longrightarrow>
     \<not> awaiting (uiState (onmessage now m s))"
  by (cases m)
     (auto simp: handleAgentStatus_def handleTodosUpdate_def handleWorkflowEvent_def)

lemma step_not_awaiting:
  assumes "\<not> awaiting (uiState s)" and "\<not> is_approval_request e"
  shows "\<not> awaiting (uiState (fst (step WS_URL e s))) \<and> sent (snd (step WS_URL e s)) = []"
proof (cases e)
  case (OnMessage now m)
  then show ?thesis using assms onmessage_not_awaiting [of s now m] by simp
next
  case (SubmitDecision d)
  then show ?thesis using assms by (simp add: submitDecision_guard)
qed (use assms in \<open>auto simp: connect_def onopen_def onerror_def onclose_def disconnect_def
      selectDocument_def selectDocument_fetched_def selectFile_def setDocuments_def
      setCurrentPdfPage_def updateFile_def setLayoutWidth_def setLayoutHeight_def
      split: option.splits\<close>)

lemma sent_append: "sent (xs @ ys) = sent xs @ sent ys"
  by (induction xs rule: sent.induct) simp_all

lemma run_not_awaiting:
  "\<not> awaiting (uiState s) \<Longrightarrow> \<not> list_ex is_approval_request es \<Longrightarrow>
     \<not> awaiting (uiState (fst (run WS_URL es s))) \<and> sent (snd (run WS_URL es s)) = []"
proof (induction es arbitrary: s)
  case Nil
  then show ?case by simp
next
  case (Cons e es)
  have e: "\<not> is_approval_request e" and es: "\<not> list_ex is_approval_request es"
    using Cons.prems(2) by simp_all
  have st: "\<not> awaiting (uiState (fst (step WS_URL e s)))" "sent (snd (step WS_URL e s)) = []"
    using step_not_awaiting [OF Cons.prems(1) e] by simp_all
  have "\<not> awaiting (uiState (fst (run WS_URL es (fst (step WS_URL e s)))))
        \<and> sent (snd (run WS_URL es (fst (step WS_URL e s)))) = []"
    using Cons.IH [OF st(1) es] .
  then show ?case using st(2)
    by (simp add: case_prod_beta sent_append)
qed

text \<open>
  C4. \<open>submitDecision\<close> without a socket, or while the store is not awaiting approval,
  transmits nothing and returns the store unchanged. A call while a request is displayed
  transmits exactly one message; after it, over any sequence of store events that holds no
  \<open>approval_request\<close> message (further \<open>submitDecision\<close> calls among them), nothing is
  transmitted, and one more \<open>submitDecision\<close> at the end transmits nothing and changes
  nothing.
\<close>

theorem one_decision_per_request:
  "(ws s = None \<or> \<not> awaiting (uiState s) \<longrightarrow>
      fst (submitDecision d s) = s \<and> sent (snd (submitDecision d s)) = [])
   \<and> (ws s = Some w \<and> uiState s = AwaitingApproval request
        \<and> \<not> list_ex is_approval_request es \<longrightarrow>
      length (sent (snd (submitDecision d s))) = 1
      \<and> sent (snd (run WS_URL es (fst (submitDecision d s)))) = []
      \<and> fst (submitDecision d' (fst (run WS_URL es (fst (submitDecision d s)))))
          = fst (run WS_URL es (fst (submitDecision d s)))
      \<and> sent (snd (submitDecision d' (fst (run WS_URL es (fst (submitDecision d s)))))) = [])"
proof (intro conjI impI)
  assume "ws s = None \<or> \<not> awaiting (uiState s)"
  then have g: "submitDecision d s
                  = (s, [ConsoleError ''Cannot submit decision: not awaiting approval''])"
    by (rule submitDecision_guard)
  show "fst (submitDecision d s) = s" using g by simp
  show "sent (snd (submitDecision d s)) = []" using g by simp
next
  assume a: "ws s = Some w \<and> uiState s = AwaitingApproval request
             \<and> \<not> list_ex is_approval_request es"
  have after: "\<not> awaiting (uiState (fst (submitDecision d s)))"
    using a by (simp add: submitDecision_def)
  have later: "\<not> awaiting (uiState (fst (run WS_URL es (fst (submitDecision d s)))))"
    and quiet: "sent (snd (run WS_URL es (fst (submitDecision d s)))) = []"
    using run_not_awaiting [OF after, of es WS_URL] a by simp_all
  show "length (sent (snd (submitDecision d s))) = 1"
    using a by (simp add: submitDecision_def)
  show "sent (snd (run WS_URL es (fst (submitDecision d s)))) = []" by (rule quiet)
  show "fst (submitDecision d' (fst (run WS_URL es (fst (submitDecision d s)))))
          = fst (run WS_URL es (fst (submitDecision d s)))"
    using submitDecision_guard [of _ d'] later by simp
  show "sent (snd (submitDecision d' (fst (run WS_URL es (fst (submitDecision d s)))))) = []"
    using submitDecision_guard [of _ d'] later by simp
qed

theorem one_decision_per_request_witness:
  "ws initial_state = None
   \<and> fst (submitDecision (JObj [(''type'', JStr ''approve'')]) initial_state) = initial_state
   \<and> sent (snd (submitDecision (JObj [(''type'', JStr ''approve'')]) initial_state)) = []
   \<and> ws (handleApprovalRequest example_request connected_state)
       = Some (WebSocket ''ws://localhost:8000/ws/s1'')
   \<and> uiState (handleApprovalRequest example_request connected_state)
       = AwaitingApproval example_request
   \<and> \<not> list_ex is_approval_request quiet_events
   \<and> length (sent (snd (submitDecision (JObj [(''type'', JStr ''reject'')])
                          (handleApprovalRequest example_request connected_state)))) = 1
   \<and> sent (snd (run ''ws://localhost:8000'' quiet_events
                   (fst (submitDecision (JObj [(''type'', JStr ''reject'')])
                          (handleApprovalRequest example_request connected_state))))) = []"
proof -
  have n: "ws initial_state = None" by (simp add: initial_state_def)
  have w: "ws (handleApprovalRequest example_request connected_state)
             = Some (WebSocket ''ws://localhost:8000/ws/s1'')"
    by (simp add: handleApprovalRequest_uiState connected_state_simps)
  have u: "uiState (handleApprovalRequest example_request connected_state)
             = AwaitingApproval example_request"
    by (simp add: handleApprovalRequest_uiState)
  have q: "\<not> list_ex is_approval_request quiet_events"
    by (simp add: quiet_events_def)
  show ?thesis
    using one_decision_per_request
            [of initial_state "JObj [(''type'', JStr ''approve'')]"]
          one_decision_per_request
            [of "handleApprovalRequest example_request connected_state"
                "JObj [(''type'', JStr ''reject'')]"
                "WebSocket ''ws://localhost:8000/ws/s1''" example_request quiet_events
                "''ws://localhost:8000''"]
          n w u q
    by simp
qed

text \<open>
  C7. Every message handed to the socket, by any store event or any click on the approval
  panel, is an envelope \<open>{type, request_id, decision}\<close> whose type is \<open>approval_decision\<close>
  and whose \<open>request_id\<close> is that of the request the store is displaying in
  \<open>awaiting_approval\<close> at that moment.
\<close>

theorem transmitted_envelope:
  assumes "m \<in> set (sent (snd (step WS_URL e s)))
           \<or> m \<in> set (sent (snd (click parse stringify b (s, p))))"
  shows "\<exists>request. uiState s = AwaitingApproval request
           \<and> msg_type m = ''approval_decision''
           \<and> env_request_id m = request_id request"
proof -
  have sub: "\<And>d. m \<in> set (sent (snd (submitDecision d s))) \<Longrightarrow> ?thesis"
    by (cases "uiState s"; cases "ws s") (auto simp: submitDecision_def)
  from assms show ?thesis
  proof
    assume "m \<in> set (sent (snd (step WS_URL e s)))"
    then show ?thesis using sub by (cases e) auto
  next
    assume c: "m \<in> set (sent (snd (click parse stringify b (s, p))))"
    then obtain request where r: "uiState s = AwaitingApproval request"
      by (cases "uiState s") (auto simp: click_def)
    from c r have "m \<in> set (sent (snd (onClick parse stringify request b (s, p))))"
      by (auto simp: click_def split: if_splits)
    then show ?thesis using sub
      by (cases b)
         (auto simp: handleCancel_def handleApprove_def handleEdit_def handleReject_def
               case_prod_beta split: if_splits option.splits)
  qed
qed

theorem transmitted_envelope_witness:
  "\<lparr> msg_type = ''approval_decision'', env_request_id = ''r1'',
      decision = JObj [(''type'', JStr ''approve'')] \<rparr>
     \<in> set (sent (snd (step ''ws://localhost:8000''
                          (SubmitDecision (JObj [(''type'', JStr ''approve'')]))
                          (handleApprovalRequest example_request connected_state))))
   \<and> (\<exists>request.
         uiState (handleApprovalRequest example_request connected_state) = AwaitingApproval request
         \<and> request_id request = ''r1'')"
proof -
  let ?m = "\<lparr> msg_type = ''approval_decision'', env_request_id = ''r1'',
                decision = JObj [(''type'', JStr ''approve'')] \<rparr>"
  have i: "?m \<in> set (sent (snd (step ''ws://localhost:8000''
                          (SubmitDecision (JObj [(''type'', JStr ''approve'')]))
                          (handleApprovalRequest example_request connected_state))))"
    by (simp add: submitDecision_def handleApprovalRequest_uiState connected_state_simps
          example_request_def)
  show ?thesis
    using transmitted_envelope [of ?m "''ws://localhost:8000''"
            "SubmitDecision (JObj [(''type'', JStr ''approve'')])"
            "handleApprovalRequest example_request connected_state"] i
    by auto
qed

section \<open>Status messages\<close>

text \<open>
  C8. \<open>handleAgentStatus\<close>: status \<open>completed\<close> gives the completed projection, \<open>failed\<close> the
  error projection carrying the message's details, \<open>running\<close> the agent-running
  projection; any other status leaves the store, and so the projection, as it was.
\<close>

theorem handleAgentStatus_projection:
  "(as_status data = Some (JStr ''completed'') \<longrightarrow>
      uiState (handleAgentStatus data s) = Completed)
   \<and> (as_status data = Some (JStr ''failed'') \<longrightarrow>
      uiState (handleAgentStatus data s) = Error (as_details data))
   \<and> (as_status data = Some (JStr ''running'') \<longrightarrow>
      uiState (handleAgentStatus data s) = AgentRunning)
   \<and> (as_status data \<noteq> Some (JStr ''completed'') \<and> as_status data \<noteq> Some (JStr ''failed'')
        \<and> as_status data \<noteq> Some (JStr ''running'') \<longrightarrow>
      handleAgentStatus data s = s)"
  by (simp add: handleAgentStatus_def)

theorem handleAgentStatus_projection_witness:
  "uiState (handleAgentStatus \<lparr> as_status = Some (JStr ''completed''), as_details = None \<rparr>
              connected_state) = Completed
   \<and> uiState (handleAgentStatus
                \<lparr> as_status = Some (JStr ''failed''), as_details = Some (JStr ''timeout'') \<rparr>
                connected_state) = Error (Some (JStr ''timeout''))
   \<and> uiState (handleAgentStatus \<lparr> as_status = Some (JStr ''running''), as_details = None \<rparr>
                (handleApprovalRequest example_request connected_state)) = AgentRunning
   \<and> handleAgentStatus \<lparr> as_status = Some (JStr ''paused''), as_details = None \<rparr>
        (handleApprovalRequest example_request connected_state)
       = handleApprovalRequest example_request connected_state"
  using handleAgentStatus_projection
          [of "\<lparr> as_status = Some (JStr ''completed''), as_details = None \<rparr>" connected_state]
        handleAgentStatus_projection
          [of "\<lparr> as_status = Some (JStr ''failed''), as_details = Some (JStr ''timeout'') \<rparr>"
              connected_state]
        handleAgentStatus_projection
          [of "\<lparr> as_status = Some (JStr ''running''), as_details = None \<rparr>"
              "handleApprovalRequest example_request connected_state"]
        handleAgentStatus_projection
          [of "\<lparr> as_status = Some (JStr ''paused''), as_details = None \<rparr>"
              "handleApprovalRequest example_request connected_state"]
  by simp

section \<open>Editing the arguments\<close>

text \<open>
  C5. Confirming an edit whose text \<open>JSON.parse\<close> rejects is a local failure: the handler
  only raises the alert, nothing is transmitted, the panel stays in editing mode with the
  same text, and the store still awaits approval of the same request.
\<close>

theorem invalid_edit_not_transmitted:
  assumes "uiState s = AwaitingApproval request" and "isEditing p"
    and "parse (editedArgs p) = None"
  shows "handleEdit parse stringify request (s, p)
           = ((s, p), [Alert ''Invalid JSON. Please check your edits.''])
       \<and> fst (click parse stringify EditButton (s, p)) = (s, p)
       \<and> sent (snd (click parse stringify EditButton (s, p))) = []
       \<and> isEditing (snd (fst (click parse stringify EditButton (s, p))))
       \<and> uiState (fst (fst (click parse stringify EditButton (s, p)))) = AwaitingApproval request"
  using assms by (simp add: handleEdit_def click_def)

theorem invalid_edit_not_transmitted_witness:
  "uiState (handleApprovalRequest example_request connected_state)
     = AwaitingApproval example_request
   \<and> tiny_parse ''{'' = None
   \<and> click tiny_parse tiny_stringify EditButton
       (handleApprovalRequest example_request connected_state,
        \<lparr> isEditing = True, editedArgs = ''{'' \<rparr>)
     = ((handleApprovalRequest example_request connected_state,
         \<lparr> isEditing = True, editedArgs = ''{'' \<rparr>),
        [Alert ''Invalid JSON. Please check your edits.''])"
proof -
  have u: "uiState (handleApprovalRequest example_request connected_state)
             = AwaitingApproval example_request"
    by (simp add: handleApprovalRequest_uiState)
  have e: "isEditing \<lparr> isEditing = True, editedArgs = ''{'' \<rparr>" by simp
  have t: "tiny_parse (editedArgs \<lparr> isEditing = True, editedArgs = ''{'' \<rparr>) = None"
    by (simp add: tiny_parse_def)
  have c: "canEdit example_request" by (simp add: canEdit_def example_request_def)
  show ?thesis
    using invalid_edit_not_transmitted
            [where s = "handleApprovalRequest example_request connected_state"
               and request = example_request
               and p = "\<lparr> isEditing = True, editedArgs = ''{'' \<rparr>"
               and parse = tiny_parse and stringify = tiny_stringify]
          u e t c
    by (simp add: click_def)
qed

text \<open>
  As the specification words it, a confirmed edit would transmit \<open>spec_Edit\<close> of the parsed
  text. The panel transmits another object: confirming the text \<open>{}\<close> for the example request
  does not send \<open>{type: edit, edited_args: {}}\<close>.
\<close>

theorem confirmed_edit_payload_counterexample:
  "map decision
     (sent (snd (click tiny_parse tiny_stringify EditButton
                   (handleApprovalRequest example_request connected_state,
                    \<lparr> isEditing = True, editedArgs = ''{}'' \<rparr>))))
   \<noteq> [spec_Edit (JObj [])]"
  by (simp add: click_def handleApprovalRequest_uiState canEdit_def example_request_def
        handleEdit_def tiny_parse_def submitDecision_def connected_state_simps spec_Edit_def)

text \<open>
  C6 (as the code has it). For a confirmed edit whose text parses, every decision the panel
  transmits is \<open>{type: edit, edited_action: {name: tool_name, args: parsed}}\<close>: the parsed
  value, of any JSON shape, travels as \<open>edited_action.args\<close> beside the request's tool name,
  and there is no \<open>edited_args\<close> field. While the store holds an open socket exactly one
  envelope is transmitted, for the displayed request; while it holds no socket (after
  \<open>onclose\<close> or \<open>disconnect\<close>) the guard of \<open>submitDecision\<close> refuses and nothing is
  transmitted.
\<close>

theorem confirmed_edit_payload:
  assumes "uiState s = AwaitingApproval request"
    and "canEdit request" and "isEditing p" and "parse (editedArgs p) = Some parsed"
  shows "(\<forall>m \<in> set (sent (snd (click parse stringify EditButton (s, p)))).
            decision m =
              JObj [(''type'', JStr ''edit''),
                    (''edited_action'',
                       JObj [(''name'', JStr (tool_name request)), (''args'', parsed)])])
       \<and> (ws s = Some w \<longrightarrow>
            sent (snd (click parse stringify EditButton (s, p)))
              = [\<lparr> msg_type = ''approval_decision'',
                   env_request_id = request_id request,
                   decision =
                     JObj [(''type'', JStr ''edit''),
                           (''edited_action'',
                              JObj [(''name'', JStr (tool_name request)), (''args'', parsed)])] \<rparr>])
       \<and> (ws s = None \<longrightarrow> sent (snd (click parse stringify EditButton (s, p))) = [])"
proof (cases "ws s")
  case None
  then show ?thesis using assms
    by (simp add: click_def handleEdit_def submitDecision_def)
next
  case (Some w')
  then show ?thesis using assms
    by (simp add: click_def handleEdit_def submitDecision_def)
qed

theorem confirmed_edit_payload_witness:
  "uiState (handleApprovalRequest example_request connected_state)
     = AwaitingApproval example_request
   \<and> ws (handleApprovalRequest example_request connected_state)
     = Some (WebSocket ''ws://localhost:8000/ws/s1'')
   \<and> ws (onclose (handleApprovalRequest example_request connected_state)) = None
   \<and> canEdit example_request
   \<and> tiny_parse ''{}'' = Some (JObj [])
   \<and> sent (snd (click tiny_parse tiny_stringify EditButton
                   (handleApprovalRequest example_request connected_state,
                    \<lparr> isEditing = True, editedArgs = ''{}'' \<rparr>)))
       = [\<lparr> msg_type = ''approval_decision'', env_request_id = ''r1'',
            decision =
              JObj [(''type'', JStr ''edit''),
                    (''edited_action'',
                       JObj [(''name'', JStr ''write_file''), (''args'', JObj [])])] \<rparr>]
   \<and> sent (snd (click tiny_parse tiny_stringify EditButton
                   (onclose (handleApprovalRequest example_request connected_state),
                    \<lparr> isEditing = True, editedArgs = ''{}'' \<rparr>))) = []"
proof -
  have u: "uiState (handleApprovalRequest example_request connected_state)
             = AwaitingApproval example_request"
    by (simp add: handleApprovalRequest_uiState)
  have w: "ws (handleApprovalRequest example_request connected_state)
             = Some (WebSocket ''ws://localhost:8000/ws/s1'')"
    by (simp add: handleApprovalRequest_uiState connected_state_simps)
  have uc: "uiState (onclose (handleApprovalRequest example_request connected_state))
              = AwaitingApproval example_request"
    by (simp add: onclose_def handleApprovalRequest_uiState)
  have wc: "ws (onclose (handleApprovalRequest example_request connected_state)) = None"
    by (simp add: onclose_def)
  have c: "canEdit example_request" by (simp add: canEdit_def example_request_def)
  have e: "isEditing \<lparr> isEditing = True, editedArgs = ''{}'' \<rparr>" by simp
  have t: "tiny_parse (editedArgs \<lparr> isEditing = True, editedArgs = ''{}'' \<rparr>) = Some (JObj [])"
    by (simp add: tiny_parse_def)
  have r: "request_id example_request = ''r1''" "tool_name example_request = ''write_file''"
    by (simp_all add: example_request_def)
  show ?thesis
    using confirmed_edit_payload
            [where s = "handleApprovalRequest example_request connected_state"
               and request = example_request
               and w = "WebSocket ''ws://localhost:8000/ws/s1''"
               and p = "\<lparr> isEditing = True, editedArgs = ''{}'' \<rparr>"
               and parse = tiny_parse and parsed = "JObj []" and stringify = tiny_stringify]
          confirmed_edit_payload
            [where s = "onclose (handleApprovalRequest example_request connected_state)"
               and request = example_request
               and w = "WebSocket ''ws://localhost:8000/ws/s1''"
               and p = "\<lparr> isEditing = True, editedArgs = ''{}'' \<rparr>"
               and parse = tiny_parse and parsed = "JObj []" and stringify = tiny_stringify]
          u w uc wc c e t r
    by simp
qed

section \<open>Which decisions the panel offers\<close>

text \<open>
  C1. The Approve button is rendered whatever \<open>allowed_decisions\<close> holds. For a request
  that allows only \<open>reject\<close>, a click on Approve transmits an \<open>approve\<close> decision for it.
\<close>

theorem approve_outside_allowed_is_transmitted:
  "''approve'' \<notin> set (allowed_decisions approve_excluded_request)
   \<and> sent (snd (click tiny_parse tiny_stringify ApproveButton
                   (handleApprovalRequest approve_excluded_request connected_state,
                    \<lparr> isEditing = False, editedArgs = [] \<rparr>)))
       = [\<lparr> msg_type = ''approval_decision'', env_request_id = ''r1'',
            decision = JObj [(''type'', JStr ''approve'')] \<rparr>]"
  by (simp add: click_def handleApprovalRequest_uiState handleApprove_def submitDecision_def
        connected_state_simps approve_excluded_request_def example_request_def)

text \<open>
  The Edit and Reject buttons are rendered only when \<open>allowed_decisions\<close> holds their
  variant, so no click transmits an \<open>edit\<close> or \<open>reject\<close> decision outside it.
\<close>

lemma absent_edit_reject_not_transmitted:
  assumes "uiState s = AwaitingApproval request"
    and "v = ''edit'' \<or> v = ''reject''" and "v \<notin> set (allowed_decisions request)"
    and "m \<in> set (sent (snd (click parse stringify b (s, p))))"
  shows "decision_type (decision m) \<noteq> Some (JStr v)"
  using assms
  by (cases b; cases "ws s")
     (auto simp: click_def handleCancel_def handleApprove_def handleEdit_def handleReject_def
           submitDecision_def canEdit_def canReject_def split: if_splits option.splits)

section \<open>An arriving approval request\<close>

subsection \<open>The highlight projection\<close>

lemma map_of_docPages_acc:
  "map_of (foldl (\<lambda>m dh. AList.update (doc_id dh) (new_Set (legally_significant_pages dh)) m) m0 dhs) d =
     (case find (\<lambda>dh. doc_id dh = d) (rev dhs) of
        Some dh \<Rightarrow> Some (new_Set (legally_significant_pages dh))
      | None \<Rightarrow> map_of m0 d)"
proof (induction dhs rule: rev_induct)
  case Nil
  show ?case by simp
next
  case (snoc dh dhs)
  then show ?case by (simp add: update_conv')
qed

lemma map_of_docPages:
  "map_of (docPages dhs) d =
     map_option (\<lambda>dh. new_Set (legally_significant_pages dh)) (find (\<lambda>dh. doc_id dh = d) (rev dhs))"
  by (simp add: docPages_def map_of_docPages_acc split: option.splits)

lemma map_of_addPageHighlight:
  "map_option set (map_of (addPageHighlight m ph) d) =
     (if d = ph_doc_id ph
      then Some ((case map_of m d of Some e \<Rightarrow> set e | None \<Rightarrow> {}) \<union> set (page_nums ph))
      else map_option set (map_of m d))"
  by (simp add: addPageHighlight_def Let_def update_conv' set_foldl_Set_add split: option.splits)

lemma map_of_page_loop:
  "map_option set (map_of (foldl addPageHighlight m phs) d) =
     (if d \<in> ph_doc_id ` set phs
      then Some ((case map_of m d of Some e \<Rightarrow> set e | None \<Rightarrow> {})
                 \<union> (\<Union>ph \<in> {ph \<in> set phs. ph_doc_id ph = d}. set (page_nums ph)))
      else map_option set (map_of m d))"
proof (induction phs rule: rev_induct)
  case Nil
  show ?case by simp
next
  case (snoc ph phs)
  show ?case
  proof (cases "d = ph_doc_id ph")
    case True
    then show ?thesis using snoc
      by (auto simp: map_of_addPageHighlight image_iff split: option.splits if_splits)
  next
    case False
    then show ?thesis using snoc
      by (auto simp: map_of_addPageHighlight split: option.splits if_splits)
  qed
qed

lemma find_rev_None: "(find P (rev xs) = None) = (\<forall>x \<in> set xs. \<not> P x)"
  by (auto simp: find_None_iff)

lemma find_Some_set: "find P xs = Some x \<Longrightarrow> x \<in> set xs \<and> P x"
  by (induction xs) (auto split: if_splits)

text \<open>
  With two document highlights for the same document, the second \<open>pageHighlights.set\<close>
  replaces the first: the pages stored for \<open>d1\<close> are those of the last highlight only, not
  the union the specification describes.
\<close>

theorem highlight_projection_counterexample:
  "map_option set
     (map_of (highlightedPages (handleApprovalRequest repeated_document_request connected_state))
        ''d1'')
   \<noteq> Some (spec_highlightedPages repeated_document_request ''d1'')"
  by (simp add: handleApprovalRequest_def Let_def repeated_document_request_def
        example_request_def docPages_def new_Set_def Set_add_def spec_highlightedPages_def)

text \<open>
  C2 (as the code has it). \<open>highlightedDocumentIds\<close> holds exactly the \<open>doc_id\<close>s of the
  document highlights and \<open>highlightedFilePaths\<close> exactly the \<open>file_path\<close>s of the file
  highlights. \<open>highlightedPages\<close> has an entry for a document exactly when a document or page
  highlight names it, and the entry holds the legally significant pages of the last
  document highlight for that document (none if there is no such highlight) together with
  the page numbers of all its page highlights.
\<close>

theorem highlight_projection:
  "set (highlightedDocumentIds (handleApprovalRequest request s))
     = doc_id ` set (document_highlights request)
   \<and> set (highlightedFilePaths (handleApprovalRequest request s))
     = file_path ` set (file_highlights request)
   \<and> map_option set (map_of (highlightedPages (handleApprovalRequest request s)) d)
     = (if d \<in> doc_id ` set (document_highlights request)
               \<union> ph_doc_id ` set (page_highlights request)
        then Some ((case find (\<lambda>dh. doc_id dh = d) (rev (document_highlights request)) of
                      None \<Rightarrow> {}
                    | Some dh \<Rightarrow> set (legally_significant_pages dh))
                   \<union> set (concat (map page_nums
                                    (filter (\<lambda>ph. ph_doc_id ph = d) (page_highlights request)))))
        else None)"
proof (intro conjI)
  show "set (highlightedDocumentIds (handleApprovalRequest request s))
          = doc_id ` set (document_highlights request)"
    by (simp add: handleApprovalRequest_def Let_def set_new_Set)
  show "set (highlightedFilePaths (handleApprovalRequest request s))
          = file_path ` set (file_highlights request)"
    by (simp add: handleApprovalRequest_def Let_def set_new_Set)
  let ?dhs = "document_highlights request" and ?phs = "page_highlights request"
  have pages: "highlightedPages (handleApprovalRequest request s)
                 = foldl addPageHighlight (docPages ?dhs) ?phs"
    by (simp add: handleApprovalRequest_def Let_def)
  have nop: "d \<notin> ph_doc_id ` set ?phs \<Longrightarrow>
               set (concat (map page_nums (filter (\<lambda>ph. ph_doc_id ph = d) ?phs))) = {}"
    by auto
  show "map_option set (map_of (highlightedPages (handleApprovalRequest request s)) d)
     = (if d \<in> doc_id ` set ?dhs \<union> ph_doc_id ` set ?phs
        then Some ((case find (\<lambda>dh. doc_id dh = d) (rev ?dhs) of
                      None \<Rightarrow> {}
                    | Some dh \<Rightarrow> set (legally_significant_pages dh))
                   \<union> set (concat (map page_nums (filter (\<lambda>ph. ph_doc_id ph = d) ?phs))))
        else None)"
  proof (cases "find (\<lambda>dh. doc_id dh = d) (rev ?dhs)")
    case None
    then have "d \<notin> doc_id ` set ?dhs"
      by (auto simp: find_rev_None)
    then show ?thesis using None
      by (simp add: pages map_of_page_loop map_of_docPages)
  next
    case (Some dh)
    then have "dh \<in> set ?dhs \<and> doc_id dh = d"
      using find_Some_set [of "\<lambda>dh. doc_id dh = d" "rev ?dhs" dh] by simp
    then have "d \<in> doc_id ` set ?dhs"
      by auto
    then show ?thesis using Some nop
      by (simp add: pages map_of_page_loop map_of_docPages set_new_Set)
  qed
qed

theorem highlight_projection_witness:
  "set (highlightedDocumentIds (handleApprovalRequest example_request connected_state)) = {''d1''}
   \<and> set (highlightedFilePaths (handleApprovalRequest example_request connected_state))
       = {''report.md''}
   \<and> map_option set
         (map_of (highlightedPages (handleApprovalRequest example_request connected_state)) ''d1'')
       = Some {3, 4, 7}
   \<and> map_option set
         (map_of (highlightedPages (handleApprovalRequest example_request connected_state)) ''d2'')
       = None"
  using highlight_projection [of example_request connected_state "''d1''"]
        highlight_projection [of example_request connected_state "''d2''"]
  by (auto simp: example_request_def)

subsection \<open>Auto-selection\<close>

text \<open>
  C9. The store counts a document as selected when \<open>selectedDocumentId\<close> is truthy, and as
  none selected (\<open>!currentSelected\<close>) when it is \<open>null\<close> or the empty string. When the
  request has a document highlight and none is selected, the \<open>doc_id\<close> of the first document
  highlight becomes the selection; when a document is selected, the request leaves the
  selection unchanged.
\<close>

theorem auto_selection:
  "(document_highlights request \<noteq> [] \<and> falsy (selectedDocumentId s) \<longrightarrow>
      selectedDocumentId (handleApprovalRequest request s)
        = Some (doc_id (hd (document_highlights request))))
   \<and> (\<not> falsy (selectedDocumentId s) \<longrightarrow>
      selectedDocumentId (handleApprovalRequest request s) = selectedDocumentId s)"
proof (intro conjI impI)
  assume a: "document_highlights request \<noteq> [] \<and> falsy (selectedDocumentId s)"
  obtain dh dhs where d: "document_highlights request = dh # dhs"
    using a by (cases "document_highlights request") auto
  obtain ys where "new_Set (map doc_id (document_highlights request)) = doc_id dh # ys"
    using new_Set_Cons [of "doc_id dh" "map doc_id dhs"] d by auto
  then show "selectedDocumentId (handleApprovalRequest request s)
               = Some (doc_id (hd (document_highlights request)))"
    using a d by (simp add: handleApprovalRequest_def Let_def)
next
  assume "\<not> falsy (selectedDocumentId s)"
  then show "selectedDocumentId (handleApprovalRequest request s) = selectedDocumentId s"
    by (simp add: handleApprovalRequest_def Let_def)
qed

theorem auto_selection_witness:
  "document_highlights example_request \<noteq> []
   \<and> falsy (selectedDocumentId connected_state)
   \<and> selectedDocumentId (handleApprovalRequest example_request connected_state) = Some ''d1''
   \<and> \<not> falsy (selectedDocumentId (selectDocument ''d7'' connected_state))
   \<and> selectedDocumentId
        (handleApprovalRequest example_request (selectDocument ''d7'' connected_state))
       = Some ''d7''"
proof -
  have n: "document_highlights example_request \<noteq> []"
    and h: "doc_id (hd (document_highlights example_request)) = ''d1''"
    by (simp_all add: example_request_def)
  have c: "falsy (selectedDocumentId connected_state)"
    by (simp add: connected_state_simps falsy_def)
  have s7: "selectedDocumentId (selectDocument ''d7'' connected_state) = Some ''d7''"
    by (simp add: selectDocument_def)
  have f7: "\<not> falsy (selectedDocumentId (selectDocument ''d7'' connected_state))"
    by (simp add: s7 falsy_def)
  show ?thesis
    using auto_selection [of example_request connected_state]
          auto_selection [of example_request "selectDocument ''d7'' connected_state"]
          n h c s7 f7
    by simp
qed

end
